theory Spec2Isabelle
  imports Complex_Main
begin

section \<open>Numbers, constants and errors\<close>

text \<open>
  Python floats are modelled as the real numbers: every arithmetic operation is exact, so
  rounding, overflow and signed zeros are outside this development.  The constants below come
  from \<^verbatim>\<open>pygeodesy.interns\<close>, which is not part of the sources at hand.
\<close>

text \<open>Modelled from the spec: \<^verbatim>\<open>EPS\<close> is the machine epsilon of a binary64 float.\<close>

definition EPS :: real where
  "EPS = 1 / 2 ^ 52"

text \<open>Modelled from the spec: \<^verbatim>\<open>EPS1\<close> is \<open>1 - machineEpsilon\<close>.\<close>

definition EPS1 :: real where
  "EPS1 = 1 - EPS"

text \<open>\<^verbatim>\<open>_1_EPS\<close>, the reciprocal of the machine epsilon.\<close>

definition one_EPS :: real where
  "one_EPS = 1 / EPS"

text \<open>\<^verbatim>\<open>_TOL = sqrt(_0_1 * EPS)\<close> (ellipsoids.py, line 102).\<close>

definition TOL :: real where
  "TOL = sqrt (1 / 10 * EPS)"

text \<open>\<^verbatim>\<open>PI_2\<close>, half of pi.\<close>

definition PI_2 :: real where
  "PI_2 = pi / 2"

text \<open>
  The error kinds of \<^verbatim>\<open>errors.py\<close>: \<^verbatim>\<open>_ValueError\<close> (with its subclass
  \<^verbatim>\<open>UnitError\<close>), \<^verbatim>\<open>_AssertionError\<close>, \<^verbatim>\<open>_NameError\<close> and \<^verbatim>\<open>RangeError\<close>;
  \<^verbatim>\<open>UPSError\<close> of \<^verbatim>\<open>ups.py\<close>; and Python's own \<^verbatim>\<open>ZeroDivisionError\<close>.
\<close>

datatype error =
  ValueError | AssertionError | NameError | RangeError | UPSError | ZeroDivisionError

fun bind_err :: "error + 'a \<Rightarrow> ('a \<Rightarrow> error + 'b) \<Rightarrow> error + 'b" where
  "bind_err (Inl x) k = Inl x"
| "bind_err (Inr v) k = k v"

text \<open>
  Python's float division, \<^verbatim>\<open>math.sqrt\<close> and \<^verbatim>\<open>math.atanh\<close> raise outside their
  domains; HOL's \<open>/\<close>, \<open>sqrt\<close> and \<open>artanh\<close> are total, so the checks are written out.
\<close>

definition py_div :: "real \<Rightarrow> real \<Rightarrow> error + real" where
  "py_div x y = (if y = 0 then Inl ZeroDivisionError else Inr (x / y))"

definition py_sqrt :: "real \<Rightarrow> error + real" where
  "py_sqrt x = (if x < 0 then Inl ValueError else Inr (sqrt x))"

definition py_atanh :: "real \<Rightarrow> error + real" where
  "py_atanh x = (if \<bar>x\<bar> \<ge> 1 then Inl ValueError else Inr (artanh x))"

text \<open>\<^verbatim>\<open>fmath.hypot1(x)\<close> is \<open>sqrt(1 + x\<^sup>2)\<close>.\<close>

definition hypot1 :: "real \<Rightarrow> real" where
  "hypot1 x = sqrt (1 + x\<^sup>2)"

text \<open>
  Modelled from the spec: \<^verbatim>\<open>units.Radius_\<close> accepts a radius that is positive; the
  source notes its lower bound as \<^verbatim>\<open>low=EPS\<close> and a smaller value raises a
  \<^verbatim>\<open>UnitError\<close>, a \<^verbatim>\<open>ValueError\<close>.
\<close>

definition Radius_low :: "real \<Rightarrow> error + real" where
  "Radius_low x = (if x < EPS then Inl ValueError else Inr x)"

section \<open>Flattening conversions (module functions of ellipsoids.py)\<close>

text \<open>\<^verbatim>\<open>_spherical(f)\<close>, \<^verbatim>\<open>_spherical_(f_)\<close> and \<^verbatim>\<open>_spherical_a_b(a, b)\<close>.\<close>

definition spherical_f :: "real \<Rightarrow> bool" where
  "spherical_f f \<longleftrightarrow> \<bar>f\<bar> < EPS \<or> f > EPS1"

definition spherical_finv :: "real \<Rightarrow> bool" where
  "spherical_finv fi \<longleftrightarrow> \<bar>fi\<bar> < EPS \<or> \<bar>fi\<bar> > one_EPS"

definition spherical_a_b :: "real \<Rightarrow> real \<Rightarrow> bool" where
  "spherical_a_b a b \<longleftrightarrow> a < EPS \<or> b < EPS \<or> \<bar>a - b\<bar> < EPS"

definition a_b2f :: "real \<Rightarrow> real \<Rightarrow> real" where
  "a_b2f a b =
     (let f = (if spherical_a_b a b then 0 else (a - b) / a)
      in if spherical_f f then 0 else f)"

definition a_b2e2 :: "real \<Rightarrow> real \<Rightarrow> real" where
  "a_b2e2 a b = (if spherical_a_b a b then 0 else 1 - (b / a)\<^sup>2)"

definition a_b2e :: "real \<Rightarrow> real \<Rightarrow> real" where
  "a_b2e a b = sqrt \<bar>a_b2e2 a b\<bar>"

text \<open>\<^verbatim>\<open>f2f_(f)\<close> and \<^verbatim>\<open>a_f_2b(a, f_)\<close>.\<close>

definition f2finv :: "real \<Rightarrow> real" where
  "f2finv f =
     (let fi = (if spherical_f f then 0 else 1 / f)
      in if spherical_finv fi then 0 else fi)"

definition a_finv2b :: "real \<Rightarrow> real \<Rightarrow> real" where
  "a_finv2b a fi = (if spherical_finv fi then a else a * (fi - 1) / fi)"

definition f2e2 :: "real \<Rightarrow> real" where
  "f2e2 f = (if spherical_f f then 0 else f * (2 - f))"

section \<open>The class Ellipsoid\<close>

text \<open>
  The fields \<^verbatim>\<open>_a\<close>, \<^verbatim>\<open>_b\<close>, \<^verbatim>\<open>_f\<close>, \<^verbatim>\<open>_f_\<close> and the name.  The other
  attributes are memoised pure functions of these and are modelled as functions.
\<close>

record Ellipsoid =
  E_a :: real
  E_b :: real
  E_f :: real
  E_finv :: real
  E_name :: string

type_synonym registry = "string \<rightharpoonup> Ellipsoid"

text \<open>
  \<^verbatim>\<open>Ellipsoid._assert(val, eps, f0, **name_value)\<close>: the loop returns in its first
  round, and raises when there is no \<^verbatim>\<open>name=value\<close> at all.
\<close>

fun Ellipsoid_assert ::
  "Ellipsoid \<Rightarrow> real \<Rightarrow> real \<Rightarrow> real \<Rightarrow> (string \<times> real) list \<Rightarrow> error + real" where
  "Ellipsoid_assert E val eps f0 [] = Inl AssertionError"
| "Ellipsoid_assert E val eps f0 ((n, v) # nvs) =
     (if \<bar>v - val\<bar> > eps then Inl AssertionError
      else Inr (if E_f E \<noteq> 0 then v else f0))"

text \<open>The properties \<^verbatim>\<open>b_a\<close>, \<^verbatim>\<open>b2_a2\<close>, \<^verbatim>\<open>e2\<close> and \<^verbatim>\<open>e12\<close>.\<close>

definition b_a :: "Ellipsoid \<Rightarrow> error + real" where
  "b_a E = Ellipsoid_assert E (E_b E / E_a E) TOL 1 [(''b_a'', 1 - E_f E)]"

definition b2_a2 :: "Ellipsoid \<Rightarrow> error + real" where
  "b2_a2 E = (if E_f E \<noteq> 0 then bind_err (b_a E) (\<lambda>r. Inr (r\<^sup>2)) else Inr 1)"

definition e2 :: "Ellipsoid \<Rightarrow> error + real" where
  "e2 E = Ellipsoid_assert E (a_b2e2 (E_a E) (E_b E)) TOL 0 [(''e2'', f2e2 (E_f E))]"

definition e12 :: "Ellipsoid \<Rightarrow> error + real" where
  "e12 E = bind_err (e2 E) (\<lambda>v. Ellipsoid_assert E ((1 - E_f E)\<^sup>2) TOL 1 [(''e12'', 1 - v)])"

definition isSpherical :: "Ellipsoid \<Rightarrow> bool" where
  "isSpherical E \<longleftrightarrow> E_f E = 0"

text \<open>
  Modelled from the spec: \<^verbatim>\<open>_NamedEnumItem._register\<close> registers the model under its
  name, and a duplicate name is a naming failure.
\<close>

definition Ellipsoid_register :: "registry \<Rightarrow> string \<Rightarrow> Ellipsoid \<Rightarrow> error + registry" where
  "Ellipsoid_register reg n E =
     (if n \<in> dom reg then Inl NameError else Inr (reg(n \<mapsto> E)))"

text \<open>
  The \<^verbatim>\<open>try\<close> block of \<^verbatim>\<open>Ellipsoid.__init__\<close> (lines 254 to 276).  An argument that
  is \<^verbatim>\<open>None\<close> or zero is false in \<^verbatim>\<open>if b:\<close> and \<^verbatim>\<open>elif f_:\<close>.  Every
  \<^verbatim>\<open>ValueError\<close> of the block is raised again as \<^verbatim>\<open>_ValueError\<close>.  The result is
  \<open>(a, b, f, f_)\<close>.
\<close>

definition init_no_b :: "real \<Rightarrow> real option \<Rightarrow> error + (real \<times> real \<times> real)" where
  "init_no_b a fi_opt =
     (case fi_opt of
        None \<Rightarrow> Inr (a, 0, 0)
      | Some fi \<Rightarrow>
          if fi \<noteq> 0
          then bind_err (Radius_low (a_finv2b a fi)) (\<lambda>b. Inr (b, a_b2f a b, fi))
          else Inr (a, 0, 0))"

definition init_b_f :: "real \<Rightarrow> real option \<Rightarrow> real option \<Rightarrow> error + (real \<times> real \<times> real)" where
  "init_b_f a b_opt fi_opt =
     (case b_opt of
        None \<Rightarrow> init_no_b a fi_opt
      | Some b0 \<Rightarrow>
          if b0 \<noteq> 0
          then bind_err (Radius_low b0) (\<lambda>b.
                 let f = a_b2f a b
                 in Inr (b, f, (case fi_opt of None \<Rightarrow> f2finv f | Some fi \<Rightarrow> fi)))
          else init_no_b a fi_opt)"

definition init_try ::
  "real \<Rightarrow> real option \<Rightarrow> real option \<Rightarrow> error + (real \<times> real \<times> real \<times> real)" where
  "init_try a0 b_opt fi_opt =
     bind_err (Radius_low a0) (\<lambda>a.
       bind_err (init_b_f a b_opt fi_opt) (\<lambda>(b, f, fi).
         if \<bar>f\<bar> < EPS \<or> a = b \<or> fi = 0 then Inr (a, a, 0, 0)
         else if f > EPS1 then Inl ValueError
         else Inr (a, b, f, fi)))"

text \<open>The cross-checks at the end of \<^verbatim>\<open>Ellipsoid.__init__\<close> (lines 285 to 288).\<close>

definition init_asserts :: "Ellipsoid \<Rightarrow> error + real" where
  "init_asserts E =
     bind_err
       (if E_f E \<noteq> 0 \<and> E_finv E \<noteq> 0
        then bind_err (Ellipsoid_assert E (1 / E_f E) TOL 0 [(''f_'', E_finv E)])
               (\<lambda>_. Ellipsoid_assert E (1 / E_finv E) TOL 0 [(''f'', E_f E)])
        else Inr 0)
       (\<lambda>_. bind_err (b2_a2 E) (\<lambda>val.
          bind_err (e12 E) (\<lambda>v. Ellipsoid_assert E val EPS 0 [(''e12'', v)])))"

text \<open>
  \<^verbatim>\<open>Ellipsoid.__init__(a, b, f_, name)\<close> with the registry \<^verbatim>\<open>Ellipsoids\<close> passed
  explicitly: the result is the new model or the error raised, and the registry afterwards.
  The statements run in the order of the source: the \<^verbatim>\<open>try\<close> block, the assignment of
  the four fields, \<^verbatim>\<open>_register\<close>, the cross-checks.
\<close>

definition Ellipsoid_init ::
  "real \<Rightarrow> real option \<Rightarrow> real option \<Rightarrow> string \<Rightarrow> registry \<Rightarrow> (error + Ellipsoid) \<times> registry" where
  "Ellipsoid_init a0 b_opt fi_opt n reg =
     (case init_try a0 b_opt fi_opt of
        Inl x \<Rightarrow> (Inl x, reg)
      | Inr (a, b, f, fi) \<Rightarrow>
          let E = \<lparr>E_a = a, E_b = b, E_f = f, E_finv = fi, E_name = n\<rparr>
          in (case Ellipsoid_register reg n E of
                Inl x \<Rightarrow> (Inl x, reg)
              | Inr reg' \<Rightarrow>
                  (case init_asserts E of
                     Inl x \<Rightarrow> (Inl x, reg')
                   | Inr _ \<Rightarrow> (Inr E, reg'))))"

section \<open>Eccentricities and the conformal latitude\<close>

text \<open>
  \<^verbatim>\<open>e2abs\<close> reads the memoised \<^verbatim>\<open>_e2\<close>, which \<^verbatim>\<open>__init__\<close> has filled through
  \<^verbatim>\<open>e12\<close>; \<^verbatim>\<open>e\<close> is \<^verbatim>\<open>sqrt(self.e2abs) if self.f else 0\<close>.
\<close>

definition e2abs :: "Ellipsoid \<Rightarrow> error + real" where
  "e2abs E = bind_err (e2 E) (\<lambda>v. Inr \<bar>v\<bar>)"

definition e :: "Ellipsoid \<Rightarrow> error + real" where
  "e E = (if E_f E \<noteq> 0 then bind_err (e2abs E) py_sqrt else Inr 0)"

text \<open>\<^verbatim>\<open>basics.copysign(x, y)\<close>: the magnitude of \<open>x\<close> with the sign of \<open>y\<close>.\<close>

definition copysign :: "real \<Rightarrow> real \<Rightarrow> real" where
  "copysign x y = (if y < 0 then - \<bar>x\<bar> else \<bar>x\<bar>)"

definition es :: "Ellipsoid \<Rightarrow> error + real" where
  "es E = bind_err (e E) (\<lambda>v. Inr (copysign v (E_f E)))"

definition es_atanh :: "Ellipsoid \<Rightarrow> real \<Rightarrow> error + real" where
  "es_atanh E x =
     (if E_f E > 0
      then bind_err (e E) (\<lambda>ev. bind_err (py_atanh (ev * x)) (\<lambda>u. Inr (ev * u)))
      else if E_f E < 0
      then bind_err (e E) (\<lambda>ev. Inr (- ev * arctan (ev * x)))
      else Inr 0)"

definition es_taupf :: "Ellipsoid \<Rightarrow> real \<Rightarrow> error + real" where
  "es_taupf E tau =
     (let t = hypot1 tau
      in bind_err (py_div tau t) (\<lambda>q.
           bind_err (es_atanh E q) (\<lambda>u.
             let s = sinh u in Inr (hypot1 s * tau - s * t))))"

definition a_b :: "Ellipsoid \<Rightarrow> error + real" where
  "a_b E = (if E_f E \<noteq> 0 then py_div (E_a E) (E_b E) else Inr 1)"

definition a2_b2 :: "Ellipsoid \<Rightarrow> error + real" where
  "a2_b2 E = (if E_f E \<noteq> 0 then bind_err (a_b E) (\<lambda>r. Inr (r\<^sup>2)) else Inr 1)"

definition es_c :: "Ellipsoid \<Rightarrow> error + real" where
  "es_c E =
     (if E_f E \<noteq> 0
      then bind_err (b_a E) (\<lambda>r. bind_err (es_atanh E 1) (\<lambda>u. Inr (r * exp u)))
      else Inr 1)"

text \<open>
  Modelled from the spec: \<^verbatim>\<open>Fsum.fsum2_\<close> adds to a running sum with tracked rounding
  error and returns the new sum and its change; in exact arithmetic these are \<open>t + d\<close> and
  \<open>d\<close>.
\<close>

definition fsum2 :: "real \<Rightarrow> real \<Rightarrow> real \<times> real" where
  "fsum2 T d = (T + d, d)"

text \<open>
  The \<^verbatim>\<open>for _ in range(9)\<close> loop of \<^verbatim>\<open>es_tauf\<close>, with the number of rounds left; it
  returns the last \<open>t\<close> and the updates \<open>d\<close> in the order they were made.
\<close>

fun tauf_loop ::
  "Ellipsoid \<Rightarrow> real \<Rightarrow> real \<Rightarrow> real \<Rightarrow> nat \<Rightarrow> real \<Rightarrow> error + (real \<times> real list)" where
  "tauf_loop E T tol e0 0 t = Inr (t, [])"
| "tauf_loop E T tol e0 (Suc k) t =
     bind_err (es_taupf E t) (\<lambda>a.
       bind_err (py_div ((T - a) * (e0 + t\<^sup>2)) (hypot1 t * hypot1 a)) (\<lambda>d0.
         let (t', d) = fsum2 t d0
         in if \<bar>d\<bar> < tol then Inr (t', [d])
            else bind_err (tauf_loop E T tol e0 k t') (\<lambda>(r, ds). Inr (r, d # ds))))"

definition es_tauf_trace :: "Ellipsoid \<Rightarrow> real \<Rightarrow> error + (real \<times> real list)" where
  "es_tauf_trace E taup =
     (let tol = max \<bar>taup\<bar> 1 * TOL
      in bind_err (a2_b2 E) (\<lambda>e0. tauf_loop E taup tol e0 9 (taup * e0)))"

definition es_tauf :: "Ellipsoid \<Rightarrow> real \<Rightarrow> error + real" where
  "es_tauf E taup = bind_err (es_tauf_trace E taup) (\<lambda>(t, ds). Inr t)"

section \<open>Radii\<close>

text \<open>\<^verbatim>\<open>_f_late\<close> and the property \<^verbatim>\<open>R1\<close>, with \<^verbatim>\<open>fsum_(a, a, b) / 3\<close> exact.\<close>

definition f_late :: "Ellipsoid \<Rightarrow> (real \<Rightarrow> real \<Rightarrow> real) \<Rightarrow> real" where
  "f_late E g =
     (if E_f E > 0 then g (E_a E) (E_b E)
      else if E_f E < 0 then g (E_b E) (E_a E)
      else E_a E)"

definition R1 :: "Ellipsoid \<Rightarrow> real" where
  "R1 E = f_late E (\<lambda>a b. (a + a + b) / 3)"

definition e2s2 :: "Ellipsoid \<Rightarrow> real \<Rightarrow> error + real" where
  "e2s2 E s =
     bind_err (e2 E) (\<lambda>v. let r = 1 - v * s\<^sup>2 in if r < 0 then Inl ValueError else Inr r)"

text \<open>\<^verbatim>\<open>roc2_(phi, scaled)\<close> returns \<open>(meridional, prime_vertical)\<close>.\<close>

definition roc2_rad :: "Ellipsoid \<Rightarrow> real \<Rightarrow> bool \<Rightarrow> error + (real \<times> real)" where
  "roc2_rad E phi scaled =
     (let a = \<bar>phi\<bar>
      in bind_err (e2s2 E (if a < PI_2 then sin a else 1)) (\<lambda>r.
           bind_err
             (if r < EPS then Inr (0, 0)
              else bind_err (py_sqrt r) (\<lambda>w.
                     bind_err (py_div (E_a E) w) (\<lambda>n.
                       bind_err (e12 E) (\<lambda>v.
                         bind_err (py_div (n * v) r) (\<lambda>m. Inr (m, n))))))
             (\<lambda>(m, n). Inr (m, if scaled then n * (if a < PI_2 then cos a else 0) else n))))"

section \<open>Universal Polar Stereographic coordinates (ups.py)\<close>

definition Bands :: "string list" where
  "Bands = [''A'', ''B'', ''Y'', ''Z'']"

definition Falsing :: real where
  "Falsing = 2000000"


text \<open>
  Modelled from the spec: the constants \<^verbatim>\<open>_UPS_LAT_MIN\<close>, \<^verbatim>\<open>_UPS_LAT_MAX\<close> and
  \<^verbatim>\<open>_UPS_ZONE\<close> of \<^verbatim>\<open>utmupsBase\<close> are -79.5 and 83.5 degrees and the pseudo-zone 0.
\<close>

definition UPS_LAT_MIN :: real where
  "UPS_LAT_MIN = - 795 / 10"

definition UPS_LAT_MAX :: real where
  "UPS_LAT_MAX = 835 / 10"

definition UPS_ZONE :: int where
  "UPS_ZONE = 0"

definition Band :: "real \<Rightarrow> real \<Rightarrow> string" where
  "Band a b = Bands ! ((if a < 0 then 0 else 2) + (if b < 0 then 0 else 1))"

text \<open>\<^verbatim>\<open>_scale(E, rho, tau)\<close>, the point scale factor.\<close>

definition ups_scale :: "Ellipsoid \<Rightarrow> real \<Rightarrow> real \<Rightarrow> error + real" where
  "ups_scale E rho tau =
     (let t = hypot1 tau
      in bind_err (py_div rho (E_a E)) (\<lambda>q.
           bind_err (e12 E) (\<lambda>v12.
             bind_err (e2 E) (\<lambda>v2.
               bind_err (py_div v2 (t\<^sup>2)) (\<lambda>w.
                 bind_err (py_sqrt (v12 + w)) (\<lambda>sq. Inr (q * t * sq)))))))"

text \<open>
  \<^verbatim>\<open>upsZoneBand5(lat, lon, strict)\<close>, from the zone, latitude and longitude that
  \<^verbatim>\<open>_to3zll\<close> returns for the result of \<^verbatim>\<open>parseDMS2(lat, lon)\<close>.  The helper \<^verbatim>\<open>_hemi\<close> of
  \<^verbatim>\<open>utmupsBase\<close> is the parameter \<open>hemi\<close>.  The result is
  \<open>(zone, band, hemipole, lat, lon)\<close>.
\<close>

definition upsZoneBand5 ::
  "(real \<Rightarrow> string) \<Rightarrow> int \<Rightarrow> real \<Rightarrow> real \<Rightarrow> bool \<Rightarrow>
     error + (int \<times> string \<times> string \<times> real \<times> real)" where
  "upsZoneBand5 hemi z lat lon strict =
     (if lat < UPS_LAT_MIN then Inr (UPS_ZONE, Band lat lon, ''S'', lat, lon)
      else if lat > UPS_LAT_MAX then Inr (UPS_ZONE, Band lat lon, ''N'', lat, lon)
      else if strict then Inl RangeError
      else Inr (z, [], hemi lat, lat, lon))"

record Ups =
  U_zone :: int
  U_pole :: string
  U_easting :: real
  U_northing :: real
  U_band :: string
  U_datum :: Ellipsoid
  U_falsed :: bool
  U_convergence :: real
  U_scale :: real
  U_scale0 :: real
  U_hemisphere :: string

text \<open>
  \<^verbatim>\<open>Ups.__init__\<close>.  Modelled from the spec: \<^verbatim>\<open>_to3zBhp\<close> fails on a pole that is
  neither \<^verbatim>\<open>N\<close> nor \<^verbatim>\<open>S\<close>; the check of the zone and the band is in the source.  The
  central scale \<open>k0\<close> is the attribute \<^verbatim>\<open>_scale0\<close> of the class.
\<close>

definition Ups_init ::
  "int \<Rightarrow> string \<Rightarrow> real \<Rightarrow> real \<Rightarrow> string \<Rightarrow> Ellipsoid \<Rightarrow> bool \<Rightarrow> real \<Rightarrow> real \<Rightarrow> real \<Rightarrow>
     error + Ups" where
  "Ups_init z p x y B E falsed c k k0 =
     (if p \<noteq> ''N'' \<and> p \<noteq> ''S'' then Inl UPSError
      else if z \<noteq> UPS_ZONE \<or> (B \<noteq> [] \<and> B \<notin> set Bands) then Inl UPSError
      else Inr \<lparr>U_zone = z, U_pole = p, U_easting = x, U_northing = y, U_band = B,
                U_datum = E, U_falsed = falsed, U_convergence = c, U_scale = k,
                U_scale0 = k0, U_hemisphere = []\<rparr>)"

definition radians :: "real \<Rightarrow> real" where
  "radians d = d * pi / 180"

definition degrees :: "real \<Rightarrow> real" where
  "degrees r = r * 180 / pi"

text \<open>Python's \<^verbatim>\<open>math.atan2(y, x)\<close>; without signed zeros its value at the origin is 0.\<close>

definition atan2 :: "real \<Rightarrow> real \<Rightarrow> real" where
  "atan2 y x =
     (if x > 0 then arctan (y / x)
      else if x < 0 then (if y \<ge> 0 then arctan (y / x) + pi else arctan (y / x) - pi)
      else if y > 0 then pi / 2
      else if y < 0 then - pi / 2
      else 0)"

text \<open>\<^verbatim>\<open>str(s)[:1].upper()\<close> on ASCII letters.\<close>

definition upper1 :: "string \<Rightarrow> string" where
  "upper1 s =
     map (\<lambda>c. let k = (of_char c :: nat) in if 97 \<le> k \<and> k \<le> 122 then char_of (k - 32) else c)
       (take 1 s)"

text \<open>
  \<^verbatim>\<open>toUps8(lat, lon, datum, Ups, pole, falsed, strict)\<close> for a latitude and longitude
  given as numbers and a class \<^verbatim>\<open>Ups\<close> whose \<^verbatim>\<open>_scale0\<close> is \<open>k0\<close>; \<open>z0\<close> is the
  zone that \<^verbatim>\<open>_to3zll\<close> finds.  \<^verbatim>\<open>sincos2d(c)\<close> is the sine and cosine of \<open>c\<close>
  degrees.  At \<open>a = 90\<close> Python's \<^verbatim>\<open>tan(radians(90))\<close> is a large positive float where
  HOL's \<open>tan (pi / 2)\<close> is 0; \<open>T\<close> is not negative at either and the branch taken is the
  same.
\<close>

definition toUps8 ::
  "(real \<Rightarrow> string) \<Rightarrow> int \<Rightarrow> real \<Rightarrow> real \<Rightarrow> Ellipsoid \<Rightarrow> real \<Rightarrow> string \<Rightarrow> bool \<Rightarrow> bool \<Rightarrow>
     error + Ups" where
  "toUps8 hemi z0 lat0 lon0 E k0 pole0 falsed strict =
     bind_err (upsZoneBand5 hemi z0 lat0 lon0 strict) (\<lambda>(z, B, p0, lat, lon).
       let p = upper1 (if pole0 \<noteq> [] then pole0 else p0);
           N = (p = ''N'');
           a = (if N then lat else - lat);
           A = (\<bar>a - 90\<bar> < TOL);
           t = tan (radians a)
       in bind_err (es_taupf E t) (\<lambda>T.
            bind_err
              (if T \<ge> 0 then (if A then Inr 0 else py_div 1 (hypot1 T + \<bar>T\<bar>))
               else Inr (hypot1 T + \<bar>T\<bar>)) (\<lambda>r1.
              bind_err (es_c E) (\<lambda>c0.
                bind_err (py_div (2 * k0 * E_a E) c0) (\<lambda>m.
                  let r = r1 * m
                  in bind_err (if A then Inr k0 else ups_scale E r t) (\<lambda>k.
                       let x = sin (radians lon) * r;
                           y = cos (radians lon) * r;
                           y1 = (if N then - y else y);
                           c = (if N then lon else - lon);
                           x2 = (if falsed then x + Falsing else x);
                           y2 = (if falsed then y1 + Falsing else y1);
                           z1 = (if z \<noteq> UPS_ZONE \<and> \<not> strict then UPS_ZONE else z)
                       in bind_err (Ups_init z1 p x2 y2 B E falsed c k k0) (\<lambda>u.
                            Inr (u\<lparr>U_hemisphere := hemi lat\<rparr>))))))))"

text \<open>
  Modelled from the spec: \<^verbatim>\<open>UtmUpsBase.eastingnorthing2(falsed)\<close> switches between the
  falsed and the unfalsed view by adding or subtracting the false origin.
\<close>

definition falsed2 :: "Ups \<Rightarrow> real" where
  "falsed2 u = (if U_falsed u then Falsing else 0)"

definition eastingnorthing2 :: "Ups \<Rightarrow> bool \<Rightarrow> real \<times> real" where
  "eastingnorthing2 u falsed =
     (let d = (if U_falsed u \<and> \<not> falsed then - falsed2 u
               else if falsed \<and> \<not> U_falsed u then falsed2 u
               else 0)
      in (U_easting u + d, U_northing u + d))"

text \<open>
  \<^verbatim>\<open>Ups.toLatLon(LatLon=None, unfalse)\<close> on a coordinate without a memoised point; the
  result is \<open>(lat, lon, convergence, scale)\<close>.  \<^verbatim>\<open>degrees90\<close> and \<^verbatim>\<open>degrees180\<close>
  convert to degrees and wrap, which changes nothing in the ranges of \<^verbatim>\<open>atan\<close> and
  \<^verbatim>\<open>atan2\<close>.
\<close>

definition toLatLon :: "Ups \<Rightarrow> bool \<Rightarrow> error + (real \<times> real \<times> real \<times> real)" where
  "toLatLon u unfalse =
     (let E = U_datum u;
          (x, y) = eastingnorthing2 u (\<not> unfalse);
          r = sqrt (x\<^sup>2 + y\<^sup>2)
      in bind_err
           (if r > 0
            then bind_err (es_c E) (\<lambda>c0.
                   bind_err (py_div (2 * U_scale0 u * E_a E) c0) (\<lambda>m. py_div r m))
            else Inr (EPS\<^sup>2)) (\<lambda>t0.
           bind_err (py_div 1 t0) (\<lambda>q.
             bind_err (es_tauf E ((q - t0) * (1 / 2))) (\<lambda>t.
               let (a, b, c) = (if U_pole u = ''N'' then (arctan t, atan2 x (- y), 1)
                                else (- arctan t, atan2 x y, - 1));
                   lat = degrees a;
                   lon = degrees b
               in bind_err (if r > 0 then ups_scale E r t else Inr (U_scale0 u)) (\<lambda>k.
                    Inr (lat, lon, lon * c, k))))))"

section \<open>Invariant and sample models\<close>

text \<open>
  What the \<^verbatim>\<open>try\<close> block of \<^verbatim>\<open>Ellipsoid.__init__\<close> establishes for the fields: a
  sphere has \<open>f = f_ = 0\<close> and \<open>b = a\<close>; otherwise \<open>f = (a - b) / a\<close> lies between
  \<open>EPS\<close> and \<open>EPS1\<close> in magnitude and both radii are at least \<open>EPS\<close>.
\<close>

definition Ellipsoid_inv :: "Ellipsoid \<Rightarrow> bool" where
  "Ellipsoid_inv E \<longleftrightarrow>
     EPS \<le> E_a E \<and>
     (if E_f E = 0 then E_finv E = 0 \<and> E_b E = E_a E
      else EPS \<le> \<bar>E_f E\<bar> \<and> E_f E \<le> EPS1 \<and> E_finv E \<noteq> 0 \<and> EPS \<le> E_b E \<and>
           EPS \<le> \<bar>E_a E - E_b E\<bar> \<and> E_f E = (E_a E - E_b E) / E_a E)"

text \<open>
  \<^verbatim>\<open>Ellipsoid(R_MA, R_MB)\<close> with the radii \<^verbatim>\<open>R_MA = 6378137.0\<close> and
  \<^verbatim>\<open>R_MB = 6356752.0\<close> of the source, the prolate model with the radii exchanged (as
  \<^verbatim>\<open>_Prolate\<close> in the self-test of the module), and a model whose inverse flattening
  300 contradicts its radii.
\<close>

abbreviation E_oblate :: Ellipsoid where
  "E_oblate \<equiv> \<lparr>E_a = 6378137, E_b = 6356752, E_f = 21385 / 6378137,
                 E_finv = 6378137 / 21385, E_name = ''Oblate''\<rparr>"

abbreviation E_prolate :: Ellipsoid where
  "E_prolate \<equiv> \<lparr>E_a = 6356752, E_b = 6378137, E_f = - (21385 / 6356752),
                  E_finv = - (6356752 / 21385), E_name = ''Prolate''\<rparr>"

abbreviation E_mismatch :: Ellipsoid where
  "E_mismatch \<equiv> \<lparr>E_a = 6378137, E_b = 6356752, E_f = 21385 / 6378137,
                   E_finv = 300, E_name = ''Mismatch''\<rparr>"


section \<open>Basic facts\<close>

lemma EPS_pos: "0 < EPS"
  by (simp add: EPS_def)

lemma EPS_lt1: "EPS < 1"
  by (simp add: EPS_def)

lemma TOL_pos: "0 < TOL"
  by (simp add: TOL_def EPS_def)

lemma TOL_lt1: "TOL < 1"
  by (simp add: TOL_def EPS_def)

lemma sphere_asserts:
  "init_asserts \<lparr>E_a = a, E_b = a, E_f = 0, E_finv = 0, E_name = n\<rparr> = Inr 0"
  using EPS_pos TOL_pos
  by (simp add: init_asserts_def b2_a2_def e12_def e2_def f2e2_def a_b2e2_def
      spherical_f_def spherical_a_b_def)

lemma init_b_f_same_radii:
  "EPS \<le> a0 \<Longrightarrow>
   init_b_f a0 (Some a0) fi_opt = Inr (a0, 0, (case fi_opt of None \<Rightarrow> 0 | Some v \<Rightarrow> v))"
  using EPS_pos
  by (auto simp add: init_b_f_def Radius_low_def a_b2f_def spherical_a_b_def spherical_f_def
      f2finv_def spherical_finv_def split: option.splits)


lemma hypot1_sq: "(hypot1 x)\<^sup>2 = 1 + x\<^sup>2"
  by (simp add: hypot1_def)

section \<open>Facts about a constructed ellipsoid\<close>

lemma a_b2f_nonzero:
  "a_b2f a b \<noteq> 0 \<Longrightarrow>
     \<not> spherical_a_b a b \<and> \<not> spherical_f ((a - b) / a) \<and> a_b2f a b = (a - b) / a"
  by (auto simp add: a_b2f_def Let_def split: if_splits)

lemma init_no_b_Inr:
  assumes "init_no_b a fo = Inr (b, f, fi)" and "EPS \<le> a"
  shows "f = 0 \<and> b = a \<or> (EPS \<le> b \<and> f = a_b2f a b)"
  using assms
  by (auto simp add: init_no_b_def Radius_low_def split: option.splits if_splits)

lemma init_b_f_Inr:
  assumes "init_b_f a bo fo = Inr (b, f, fi)" and "EPS \<le> a"
  shows "f = 0 \<and> b = a \<or> (EPS \<le> b \<and> f = a_b2f a b)"
  using assms init_no_b_Inr[of a fo b f fi]
  by (auto simp add: init_b_f_def Radius_low_def Let_def split: option.splits if_splits)

lemma init_try_Inr:
  assumes "init_try a0 bo fo = Inr (a, b, f, fi)"
  shows "Ellipsoid_inv \<lparr>E_a = a, E_b = b, E_f = f, E_finv = fi, E_name = n\<rparr> \<and> a = a0"
proof -
  from assms have a: "EPS \<le> a0"
    by (auto simp add: init_try_def Radius_low_def split: if_splits)
  from assms a obtain b1 f1 fi1 where
    1: "init_b_f a0 bo fo = Inr (b1, f1, fi1)" and
    2: "(if \<bar>f1\<bar> < EPS \<or> a0 = b1 \<or> fi1 = 0 then Inr (a0, a0, 0, 0)
         else if f1 > EPS1 then Inl ValueError else Inr (a0, b1, f1, fi1)) = Inr (a, b, f, fi)"
    by (cases "init_b_f a0 bo fo") (auto simp add: init_try_def Radius_low_def)
  show ?thesis
  proof (cases "\<bar>f1\<bar> < EPS \<or> a0 = b1 \<or> fi1 = 0")
    case True
    with 2 a show ?thesis by (auto simp add: Ellipsoid_inv_def)
  next
    case False
    with 2 have eq: "a = a0" "b = b1" "f = f1" "fi = fi1" and le: "f1 \<le> EPS1"
      by (auto split: if_splits)
    from False EPS_pos have nz: "f1 \<noteq> 0" by auto
    with init_b_f_Inr[OF 1 a] have b1: "EPS \<le> b1" and f1: "f1 = a_b2f a0 b1" by auto
    from nz f1 a_b2f_nonzero[of a0 b1] have
      "\<not> spherical_a_b a0 b1" "f1 = (a0 - b1) / a0" by auto
    with False a b1 le eq nz show ?thesis
      by (auto simp add: Ellipsoid_inv_def spherical_a_b_def)
  qed
qed

lemma Ellipsoid_init_Inr:
  assumes "Ellipsoid_init a0 bo fo n reg = (Inr E, reg')"
  shows "Ellipsoid_inv E"
proof -
  from assms obtain a b f fi where t: "init_try a0 bo fo = Inr (a, b, f, fi)"
    and E: "E = \<lparr>E_a = a, E_b = b, E_f = f, E_finv = fi, E_name = n\<rparr>"
    by (auto simp add: Ellipsoid_init_def Let_def split: sum.splits prod.splits)
  from init_try_Inr[OF t, of n] E show ?thesis by auto
qed

lemma inv_a_pos: "Ellipsoid_inv E \<Longrightarrow> 0 < E_a E"
  using EPS_pos by (auto simp add: Ellipsoid_inv_def)


lemma inv_f_lt1: "Ellipsoid_inv E \<Longrightarrow> E_f E < 1"
  using EPS_pos by (auto simp add: Ellipsoid_inv_def EPS1_def split: if_splits)

lemma inv_b_over_a: "Ellipsoid_inv E \<Longrightarrow> E_b E / E_a E = 1 - E_f E"
  using EPS_pos by (auto simp add: Ellipsoid_inv_def field_simps split: if_splits)

lemma inv_e2: "Ellipsoid_inv E \<Longrightarrow> e2 E = Inr (E_f E * (2 - E_f E))"
proof -
  assume i: "Ellipsoid_inv E"
  show ?thesis
  proof (cases "E_f E = 0")
    case True
    with i TOL_pos EPS_pos show ?thesis
      by (simp add: e2_def Ellipsoid_inv_def a_b2e2_def f2e2_def spherical_a_b_def spherical_f_def)
  next
    case False
    with i have ns: "\<not> spherical_a_b (E_a E) (E_b E)" "\<not> spherical_f (E_f E)"
      by (auto simp add: Ellipsoid_inv_def spherical_a_b_def spherical_f_def)
    have "1 - (E_b E / E_a E)\<^sup>2 = E_f E * (2 - E_f E)"
      unfolding inv_b_over_a[OF i] by (simp add: power2_eq_square algebra_simps)
    with ns False TOL_pos show ?thesis
      by (simp add: e2_def a_b2e2_def f2e2_def)
  qed
qed

lemma inv_e12: "Ellipsoid_inv E \<Longrightarrow> e12 E = Inr ((1 - E_f E)\<^sup>2)"
proof -
  assume i: "Ellipsoid_inv E"
  have "1 - E_f E * (2 - E_f E) = (1 - E_f E)\<^sup>2"
    by (simp add: power2_eq_square algebra_simps)
  with TOL_pos show ?thesis
    by (simp add: e12_def inv_e2[OF i])
qed

lemma inv_b_a: "Ellipsoid_inv E \<Longrightarrow> b_a E = Inr (1 - E_f E)"
  using TOL_pos by (simp add: b_a_def inv_b_over_a)

lemma inv_e: "Ellipsoid_inv E \<Longrightarrow> e E = Inr (sqrt \<bar>E_f E * (2 - E_f E)\<bar>)"
  by (simp add: e_def e2abs_def inv_e2 py_sqrt_def)

lemmas init_defs = Ellipsoid_init_def init_try_def init_b_f_def init_no_b_def Radius_low_def
  a_b2f_def a_finv2b_def spherical_a_b_def spherical_f_def f2finv_def spherical_finv_def Let_def
  EPS_def EPS1_def one_EPS_def Ellipsoid_register_def init_asserts_def b2_a2_def b_a_def
  e12_def e2_def a_b2e2_def f2e2_def power2_eq_square

lemma init_oblate:
  "Ellipsoid_init 6378137 (Some 6356752) None ''Oblate'' Map.empty =
     (Inr E_oblate, [''Oblate'' \<mapsto> E_oblate])"
  using TOL_pos by (simp add: init_defs)

lemma init_prolate:
  "Ellipsoid_init 6356752 (Some 6378137) None ''Prolate'' Map.empty =
     (Inr E_prolate, [''Prolate'' \<mapsto> E_prolate])"
  using TOL_pos by (simp add: init_defs)

lemma Ellipsoid_assert_error: "Ellipsoid_assert E val eps f0 nvs = Inl x \<Longrightarrow> x = AssertionError"
  by (cases nvs) (auto split: if_splits)

lemma b_a_error: "b_a E = Inl x \<Longrightarrow> x = AssertionError"
  unfolding b_a_def by (rule Ellipsoid_assert_error)

lemma e2_error: "e2 E = Inl x \<Longrightarrow> x = AssertionError"
  unfolding e2_def by (rule Ellipsoid_assert_error)

lemma bind_err_Inl:
  "bind_err m k = Inl x \<Longrightarrow> m = Inl x \<or> (\<exists>v. m = Inr v \<and> k v = Inl x)"
  by (cases m) auto

lemma b2_a2_error: "b2_a2 E = Inl x \<Longrightarrow> x = AssertionError"
  by (auto simp add: b2_a2_def split: if_splits dest!: bind_err_Inl dest: b_a_error)

lemma e12_error: "e12 E = Inl x \<Longrightarrow> x = AssertionError"
  by (auto simp add: e12_def split: if_splits dest!: bind_err_Inl dest: e2_error)

lemma init_asserts_error: "init_asserts E = Inl x \<Longrightarrow> x = AssertionError"
  by (auto simp add: init_asserts_def split: if_splits dest!: bind_err_Inl
      dest: Ellipsoid_assert_error b2_a2_error e12_error)

lemma init_try_error: "init_try a0 bo fo = Inl x \<Longrightarrow> x = ValueError"
  by (auto simp add: init_try_def init_b_f_def init_no_b_def Radius_low_def Let_def
      split: if_splits option.splits prod.splits dest!: bind_err_Inl)

lemma inv_e2s2:
  assumes i: "Ellipsoid_inv E" and s: "s\<^sup>2 \<le> 1"
  shows "e2s2 E s = Inr (1 - E_f E * (2 - E_f E) * s\<^sup>2) \<and> 0 \<le> 1 - E_f E * (2 - E_f E) * s\<^sup>2"
proof -
  let ?v = "E_f E * (2 - E_f E)"
  have v1: "?v \<le> 1"
  proof -
    have "1 - ?v = (1 - E_f E)\<^sup>2" by (simp add: power2_eq_square algebra_simps)
    then have "0 \<le> 1 - ?v" by simp
    then show ?thesis by simp
  qed
  have "?v * s\<^sup>2 \<le> 1"
  proof (cases "0 \<le> ?v")
    case True
    then have "?v * s\<^sup>2 \<le> ?v * 1" using s by (intro mult_left_mono) auto
    with v1 show ?thesis by simp
  next
    case False
    then have "?v \<le> 0" by linarith
    then have "?v * s\<^sup>2 \<le> 0" by (rule mult_nonpos_nonneg) simp
    then show ?thesis by simp
  qed
  then show ?thesis by (simp add: e2s2_def inv_e2[OF i] Let_def)
qed

lemma scale_formulas_differ:
  fixes A X :: real
  assumes "A \<noteq> 1" and "X \<noteq> 0"
  shows "X * sqrt (1 + 1\<^sup>2) * sqrt (A + (1 - A) / (1 + 1\<^sup>2)) \<noteq>
         X * sqrt (1 + 1\<^sup>2) * sqrt (A + (1 - A) / 1\<^sup>2)"
proof
  assume "X * sqrt (1 + 1\<^sup>2) * sqrt (A + (1 - A) / (1 + 1\<^sup>2)) =
          X * sqrt (1 + 1\<^sup>2) * sqrt (A + (1 - A) / 1\<^sup>2)"
  with assms(2) have "sqrt (A + (1 - A) / (1 + 1\<^sup>2)) = sqrt (A + (1 - A) / 1\<^sup>2)"
    by simp
  then have "A + (1 - A) / (1 + 1\<^sup>2) = A + (1 - A) / 1\<^sup>2"
    by (simp only: real_sqrt_eq_iff)
  then have "A + (1 - A) / 2 = 1" by simp
  then have "A = 1" by (simp add: field_simps)
  with assms(1) show False by simp
qed

lemma inv_scale_arg:
  assumes "f < (1::real)" and "1 \<le> t2"
  shows "0 < (1 - f)\<^sup>2 + f * (2 - f) / t2"
proof (cases "0 \<le> f * (2 - f)")
  case True
  from assms have "0 < (1 - f)\<^sup>2" by simp
  moreover from True assms have "0 \<le> f * (2 - f) / t2" by simp
  ultimately show ?thesis by linarith
next
  case False
  then have neg: "f * (2 - f) \<le> 0" by linarith
  from assms have "f * (2 - f) / t2 \<ge> f * (2 - f) / 1"
    using neg by (intro divide_left_mono_neg) auto
  moreover have "(1 - f)\<^sup>2 + f * (2 - f) = 1" by (simp add: power2_eq_square algebra_simps)
  ultimately show ?thesis by simp
qed

section \<open>The conformal latitude and its Newton inverse\<close>




lemma inv_e_lt1:
  assumes i: "Ellipsoid_inv E" and f: "0 < E_f E"
  shows "0 < sqrt \<bar>E_f E * (2 - E_f E)\<bar> \<and> sqrt \<bar>E_f E * (2 - E_f E)\<bar> < 1"
proof -
  from inv_f_lt1[OF i] f have p: "0 < E_f E * (2 - E_f E)" by simp
  have "1 - E_f E * (2 - E_f E) = (1 - E_f E)\<^sup>2" by (simp add: power2_eq_square algebra_simps)
  moreover from inv_f_lt1[OF i] have "0 < (1 - E_f E)\<^sup>2" by simp
  ultimately have "E_f E * (2 - E_f E) < 1" by linarith
  with p show ?thesis by simp
qed








section \<open>Polar coordinates of the projection\<close>




lemma Band_in_Bands: "Band a b \<in> set Bands"
  by (simp add: Band_def Bands_def)

lemma upper1_N: "upper1 ''N'' = ''N''"
  by (simp add: upper1_def)


lemma inv_es_c: "Ellipsoid_inv E \<Longrightarrow> \<exists>c. es_c E = Inr c \<and> 0 < c"
proof -
  assume i: "Ellipsoid_inv E"
  show ?thesis
  proof (cases "E_f E = 0")
    case True
    then show ?thesis by (simp add: es_c_def)
  next
    case False
    have "\<exists>u. es_atanh E 1 = Inr u"
    proof (cases "0 < E_f E")
      case True
      from inv_e_lt1[OF i True] show ?thesis
        using True by (simp add: es_atanh_def inv_e[OF i] py_atanh_def)
    next
      case False
      then show ?thesis by (simp add: es_atanh_def inv_e[OF i])
    qed
    then obtain u where "es_atanh E 1 = Inr u" ..
    with False inv_f_lt1[OF i] show ?thesis by (simp add: es_c_def inv_b_a[OF i])
  qed
qed


lemma inv_ups_scale: "Ellipsoid_inv E \<Longrightarrow>
  ups_scale E rho tau =
    Inr (rho / E_a E * sqrt (1 + tau\<^sup>2) *
         sqrt ((1 - E_f E)\<^sup>2 + E_f E * (2 - E_f E) / (1 + tau\<^sup>2)))"
proof -
  assume i: "Ellipsoid_inv E"
  have t: "1 \<le> 1 + tau\<^sup>2" by simp
  from inv_scale_arg[OF inv_f_lt1[OF i] t]
  have "\<not> (1 - E_f E)\<^sup>2 + E_f E * (2 - E_f E) / (1 + tau\<^sup>2) < 0" by simp
  moreover have "1 + tau\<^sup>2 \<noteq> 0" using t by linarith
  ultimately show ?thesis
    using inv_a_pos[OF i]
    by (simp add: ups_scale_def Let_def py_div_def py_sqrt_def inv_e12[OF i] inv_e2[OF i]
        hypot1_sq) (simp add: hypot1_def)
qed








text \<open>
  At the pole every longitude is projected to the false origin, so the inverse cannot return
  the longitude.
\<close>

lemma inv_es_taupf_zero: "Ellipsoid_inv E \<Longrightarrow> es_taupf E 0 = Inr 0"
  by (simp add: es_taupf_def Let_def py_div_def hypot1_def es_atanh_def inv_e py_atanh_def)

lemma tan_radians_90: "tan (radians 90) = 0"
proof -
  have "radians 90 = pi / 2" by (simp add: radians_def)
  then show ?thesis by (simp only: tan_def cos_pi_half div_by_0)
qed

lemma pole_projection:
  assumes i: "Ellipsoid_inv E"
  shows "toUps8 hemi z0 90 lon E k0 [] True True =
     Inr \<lparr>U_zone = UPS_ZONE, U_pole = ''N'', U_easting = Falsing, U_northing = Falsing,
          U_band = Band 90 lon, U_datum = E, U_falsed = True, U_convergence = lon,
          U_scale = k0, U_scale0 = k0, U_hemisphere = hemi 90\<rparr>"
proof -
  from inv_es_c[OF i] obtain c where c: "es_c E = Inr c" "0 < c" by blast
  have zb: "upsZoneBand5 hemi z0 90 lon True = Inr (UPS_ZONE, Band 90 lon, ''N'', 90, lon)"
    by (simp add: upsZoneBand5_def UPS_LAT_MIN_def UPS_LAT_MAX_def)
  show ?thesis
    using TOL_pos c(2)
    by (simp add: toUps8_def zb upper1_N Let_def tan_radians_90 inv_es_taupf_zero[OF i] c(1)
        py_div_def Ups_init_def Band_in_Bands)
qed

lemma pole_longitude_lost:
  assumes "Ellipsoid_inv E"
  shows "bind_err (toUps8 hemi z0 90 lon E k0 [] True True) (\<lambda>u. toLatLon u True) =
         bind_err (toUps8 hemi z0 90 0 E k0 [] True True) (\<lambda>u. toLatLon u True)"
  by (simp add: pole_projection[OF assms] toLatLon_def eastingnorthing2_def falsed2_def Let_def)

section \<open>Construction of an ellipsoid\<close>

text \<open>
  Claim C5.  When the flattening \<open>f\<close> that \<^verbatim>\<open>Ellipsoid.__init__\<close> computes from its
  arguments has \<open>\<bar>f\<bar> < EPS\<close>, the construction of a model with a valid radius \<open>a\<close> and
  an unused name succeeds: the model is registered, its \<open>f\<close> and inverse flattening are 0,
  its \<open>b\<close> is \<open>a\<close>, it is spherical and its \<open>e2\<close> is 0.
\<close>

theorem spherical_collapse:
  assumes "EPS \<le> a0"
    and "init_b_f a0 b_opt fi_opt = Inr (b, f, fi)"
    and "\<bar>f\<bar> < EPS"
    and "n \<notin> dom reg"
  shows "\<exists>E. Ellipsoid_init a0 b_opt fi_opt n reg = (Inr E, reg(n \<mapsto> E)) \<and>
             E_f E = 0 \<and> E_finv E = 0 \<and> E_b E = E_a E \<and> E_a E = a0 \<and>
             isSpherical E \<and> e2 E = Inr 0"
proof -
  let ?E = "\<lparr>E_a = a0, E_b = a0, E_f = 0, E_finv = 0, E_name = n\<rparr>"
  have t: "init_try a0 b_opt fi_opt = Inr (a0, a0, 0, 0)"
    using assms(1-3) by (simp add: init_try_def Radius_low_def)
  have r: "Ellipsoid_register reg n ?E = Inr (reg(n \<mapsto> ?E))"
    using assms(4) by (simp add: Ellipsoid_register_def)
  have i: "Ellipsoid_init a0 b_opt fi_opt n reg = (Inr ?E, reg(n \<mapsto> ?E))"
    by (simp add: Ellipsoid_init_def Let_def t r sphere_asserts)
  have "e2 ?E = Inr 0"
    using TOL_pos EPS_pos
    by (simp add: e2_def f2e2_def a_b2e2_def spherical_f_def spherical_a_b_def)
  with i show ?thesis
    by (intro exI[of _ ?E]) (simp add: isSpherical_def)
qed

text \<open>The model with \<open>b = a\<close>, as \<^verbatim>\<open>Ellipsoids.SpherePopular\<close>.\<close>

theorem spherical_collapse_witness:
  "\<exists>E. Ellipsoid_init 6378137 (Some 6378137) None ''SpherePopular'' Map.empty
           = (Inr E, [''SpherePopular'' \<mapsto> E]) \<and>
        E_f E = 0 \<and> E_finv E = 0 \<and> E_b E = E_a E \<and> E_a E = 6378137 \<and>
        isSpherical E \<and> e2 E = Inr 0"
proof -
  have 1: "EPS \<le> 6378137"
    by (simp add: EPS_def)
  have 2: "init_b_f 6378137 (Some 6378137) None = Inr (6378137, 0, 0)"
    using init_b_f_same_radii[OF 1, of None] by simp
  have 3: "\<bar>0::real\<bar> < EPS"
    by (simp add: EPS_def)
  show ?thesis
    using spherical_collapse[OF 1 2 3, of "''SpherePopular''" Map.empty] by simp
qed

text \<open>
  Claim C6.  The claim says that construction fails with a \<^verbatim>\<open>ValueError\<close> whenever
  the flattening exceeds \<open>1 - EPS\<close>.  With \<open>a = 6378137\<close> and \<open>b = 1e-10\<close> the
  flattening \<open>(a - b) / a\<close> exceeds \<open>EPS1\<close>, but \<^verbatim>\<open>a_b2f\<close> has already replaced it
  by 0, so the check \<^verbatim>\<open>elif f > EPS1: raise ValueError\<close> is never reached and the
  construction returns a registered sphere of radius \<open>a\<close>.
\<close>

theorem degenerate_flattening_accepted:
  "Ellipsoid_init 6378137 (Some (1 / 10 ^ 10)) None ''Flat'' Map.empty =
     (Inr \<lparr>E_a = 6378137, E_b = 6378137, E_f = 0, E_finv = 0, E_name = ''Flat''\<rparr>,
      [''Flat'' \<mapsto> \<lparr>E_a = 6378137, E_b = 6378137, E_f = 0, E_finv = 0, E_name = ''Flat''\<rparr>])"
  using TOL_pos by (simp add: init_defs)

text \<open>
  Claim C7, as amended.  \<^verbatim>\<open>Ellipsoid.__init__\<close> registers the model before it runs the
  cross-checks: when a cross-check raises the \<^verbatim>\<open>AssertionError\<close>, the name was unused and
  the registry afterwards holds the failed model under that name; when the construction
  fails with a \<^verbatim>\<open>ValueError\<close> or a \<^verbatim>\<open>NameError\<close> the registry is unchanged; when it
  succeeds the registry holds the new model.
\<close>

theorem registered_before_cross_checks:
  assumes "Ellipsoid_init a0 bo fo n reg = (r, reg')"
  shows "(r = Inl AssertionError \<longrightarrow>
            n \<notin> dom reg \<and>
            (\<exists>E. reg' = reg(n \<mapsto> E) \<and> E_name E = n \<and> init_asserts E = Inl AssertionError)) \<and>
         (r = Inl ValueError \<or> r = Inl NameError \<longrightarrow> reg' = reg) \<and>
         (\<forall>E. r = Inr E \<longrightarrow> reg' = reg(n \<mapsto> E))"
proof (cases "init_try a0 bo fo")
  case (Inl x)
  with assms init_try_error[OF Inl] show ?thesis
    by (auto simp add: Ellipsoid_init_def)
next
  case (Inr q)
  obtain a b f fi where q: "q = (a, b, f, fi)" by (cases q) auto
  let ?E = "\<lparr>E_a = a, E_b = b, E_f = f, E_finv = fi, E_name = n\<rparr>"
  show ?thesis
  proof (cases "n \<in> dom reg")
    case True
    with assms Inr q show ?thesis
      by (auto simp add: Ellipsoid_init_def Let_def Ellipsoid_register_def)
  next
    case False
    show ?thesis
    proof (cases "init_asserts ?E")
      case (Inl x)
      from init_asserts_error[OF Inl] have x: "x = AssertionError" .
      from assms Inr q False Inl x have "r = Inl AssertionError" "reg' = reg(n \<mapsto> ?E)"
        by (auto simp add: Ellipsoid_init_def Let_def Ellipsoid_register_def)
      with False Inl x show ?thesis by auto
    next
      case (Inr v)
      from assms \<open>init_try a0 bo fo = Inr q\<close> q False Inr
      have "r = Inr ?E" "reg' = reg(n \<mapsto> ?E)"
        by (auto simp add: Ellipsoid_init_def Let_def Ellipsoid_register_def)
      then show ?thesis by auto
    qed
  qed
qed

text \<open>
  The claim as stated, that the registry is unchanged when a cross-check fails, is false for
  \<^verbatim>\<open>Ellipsoid(6378137, 6356752, 300, 'Mismatch')\<close>: \<open>1 / f\<close> is about 298.25, the
  first cross-check fails and the model stays registered.
\<close>

theorem mismatch_left_registered_counterexample:
  "Ellipsoid_init 6378137 (Some 6356752) (Some 300) ''Mismatch'' Map.empty =
     (Inl AssertionError, [''Mismatch'' \<mapsto> E_mismatch]) \<and>
   [''Mismatch'' \<mapsto> E_mismatch] \<noteq> Map.empty"
  using TOL_lt1 TOL_pos by (simp add: init_defs)

theorem registered_before_cross_checks_witness:
  "Ellipsoid_init 6378137 (Some 6356752) (Some 300) ''Mismatch'' Map.empty =
     (Inl AssertionError, [''Mismatch'' \<mapsto> E_mismatch]) \<and>
   ''Mismatch'' \<notin> dom (Map.empty :: registry) \<and>
   (\<exists>E. [''Mismatch'' \<mapsto> E_mismatch] = Map.empty(''Mismatch'' \<mapsto> E) \<and>
        E_name E = ''Mismatch'' \<and> init_asserts E = Inl AssertionError)"
proof -
  have 1: "Ellipsoid_init 6378137 (Some 6356752) (Some 300) ''Mismatch'' Map.empty =
     (Inl AssertionError, [''Mismatch'' \<mapsto> E_mismatch])"
    using TOL_lt1 TOL_pos by (simp add: init_defs)
  show ?thesis using 1 registered_before_cross_checks[OF 1] by blast
qed

section \<open>Derived quantities\<close>

text \<open>
  Claim C8, as amended.  For a constructed ellipsoid the mean radius \<^verbatim>\<open>R1\<close> is
  \<open>(2 a + b) / 3\<close> when the model is oblate or spherical, and \<open>(2 b + a) / 3\<close> when it is
  prolate, since \<^verbatim>\<open>_f_late\<close> exchanges the radii for a negative flattening.
\<close>

theorem R1_by_shape:
  assumes "Ellipsoid_init a0 bo fo n reg = (Inr E, reg')"
  shows "R1 E = (if E_f E < 0 then (2 * E_b E + E_a E) / 3 else (2 * E_a E + E_b E) / 3)"
  using Ellipsoid_init_Inr[OF assms]
  by (auto simp add: R1_def f_late_def Ellipsoid_inv_def)

text \<open>
  The claim as stated, \<open>R1 = (2 a + b) / 3\<close> for a prolate model too, is false for
  \<^verbatim>\<open>Ellipsoid(6356752, 6378137)\<close>.
\<close>

theorem R1_prolate_counterexample:
  "Ellipsoid_init 6356752 (Some 6378137) None ''Prolate'' Map.empty =
     (Inr E_prolate, [''Prolate'' \<mapsto> E_prolate]) \<and>
   R1 E_prolate = 19113026 / 3 \<and>
   (2 * E_a E_prolate + E_b E_prolate) / 3 = 19091641 / 3 \<and>
   R1 E_prolate \<noteq> (2 * E_a E_prolate + E_b E_prolate) / 3"
  using init_prolate by (simp add: R1_def f_late_def)

theorem R1_by_shape_witness:
  "Ellipsoid_init 6378137 (Some 6356752) None ''Oblate'' Map.empty =
     (Inr E_oblate, [''Oblate'' \<mapsto> E_oblate]) \<and>
   R1 E_oblate = 19113026 / 3"
  using init_oblate R1_by_shape[OF init_oblate] by simp

text \<open>
  Claim C10.  For a constructed ellipsoid, also a prolate one with a negative \<open>e2\<close>, the
  first eccentricity \<open>e\<close> is the square root of the absolute value of \<open>e2\<close> and is not
  negative, and the signed eccentricity \<open>es\<close> is \<open>e\<close> with the sign of the flattening
  \<open>f\<close>; the function \<^verbatim>\<open>a_b2e\<close> is never negative either.
\<close>

theorem eccentricity_sign:
  assumes "Ellipsoid_init a0 bo fo n reg = (Inr E, reg')"
  shows "\<exists>v ev. e2 E = Inr v \<and> e E = Inr ev \<and> ev = sqrt \<bar>v\<bar> \<and> 0 \<le> ev \<and>
           es E = Inr (sgn (E_f E) * ev) \<and> 0 \<le> a_b2e x y"
proof -
  from Ellipsoid_init_Inr[OF assms] have i: "Ellipsoid_inv E" .
  let ?v = "E_f E * (2 - E_f E)"
  have "es E = Inr (sgn (E_f E) * sqrt \<bar>?v\<bar>)"
    by (simp add: es_def inv_e[OF i] copysign_def sgn_real_def)
  then show ?thesis
    by (simp add: inv_e2[OF i] inv_e[OF i] a_b2e_def)
qed

theorem eccentricity_sign_witness:
  "Ellipsoid_init 6356752 (Some 6378137) None ''Prolate'' Map.empty =
     (Inr E_prolate, [''Prolate'' \<mapsto> E_prolate]) \<and>
   (\<exists>v ev. e2 E_prolate = Inr v \<and> e E_prolate = Inr ev \<and> ev = sqrt \<bar>v\<bar> \<and> 0 \<le> ev \<and>
      es E_prolate = Inr (sgn (E_f E_prolate) * ev) \<and> 0 \<le> a_b2e 6356752 6378137)"
  using init_prolate eccentricity_sign[OF init_prolate, of 6356752 6378137] by blast

text \<open>
  Claim C9.  For a constructed ellipsoid and a latitude \<open>phi\<close> (in radians, between
  \<open>- pi / 2\<close> and \<open>pi / 2\<close>), \<^verbatim>\<open>roc2_\<close> evaluates \<open>W2 = 1 - e2 * sin\<^sup>2 phi\<close>, which is
  never negative; it returns 0 for both radii when \<open>W2 < EPS\<close>, and otherwise the
  prime-vertical radius \<open>n = a / sqrt W2\<close> and the meridional radius \<open>m = n * e12 / W2\<close>.
  The result is never an error: no division by zero and no square root of a negative number
  occurs.
\<close>

theorem roc2_radii:
  assumes "Ellipsoid_init a0 bo fo n reg = (Inr E, reg')" and "\<bar>phi\<bar> \<le> pi / 2"
  shows "\<exists>v v12 W2. e2 E = Inr v \<and> e12 E = Inr v12 \<and> W2 = 1 - v * (sin phi)\<^sup>2 \<and> 0 \<le> W2 \<and>
           roc2_rad E phi False =
             Inr (if W2 < EPS then (0, 0)
                  else (E_a E / sqrt W2 * v12 / W2, E_a E / sqrt W2))"
proof -
  from Ellipsoid_init_Inr[OF assms(1)] have i: "Ellipsoid_inv E" .
  let ?s = "if \<bar>phi\<bar> < PI_2 then sin \<bar>phi\<bar> else 1"
  let ?W = "1 - E_f E * (2 - E_f E) * (sin phi)\<^sup>2"
  have s2: "?s\<^sup>2 = (sin phi)\<^sup>2"
  proof (cases "\<bar>phi\<bar> < PI_2")
    case True
    then show ?thesis by (cases "0 \<le> phi") (simp_all add: abs_if)
  next
    case False
    with assms(2) have "\<bar>phi\<bar> = pi / 2" by (simp add: PI_2_def)
    then have "phi = pi / 2 \<or> phi = - (pi / 2)" by (auto simp add: abs_if split: if_splits)
    then have "sin phi = 1 \<or> sin phi = - 1"
    proof
      assume "phi = pi / 2"
      then have "sin phi = 1" by (simp only: sin_pi_half)
      then show ?thesis ..
    next
      assume "phi = - (pi / 2)"
      then have "sin phi = - 1" by (simp only: sin_minus sin_pi_half)
      then show ?thesis ..
    qed
    then have "(sin phi)\<^sup>2 = 1" by auto
    with False show ?thesis by simp
  qed
  have "(sin phi)\<^sup>2 \<le> 1" using abs_sin_le_one[of phi] by (simp only: abs_square_le_1)
  then have "?s\<^sup>2 \<le> 1" by (simp only: s2)
  from inv_e2s2[OF i this] have
    r: "e2s2 E ?s = Inr ?W" and W0: "0 \<le> ?W" unfolding s2 by auto
  have "roc2_rad E phi False =
          Inr (if ?W < EPS then (0, 0)
               else (E_a E / sqrt ?W * (1 - E_f E)\<^sup>2 / ?W, E_a E / sqrt ?W))"
  proof (cases "?W < EPS")
    case True
    then show ?thesis by (simp add: roc2_rad_def Let_def r)
  next
    case False
    with EPS_pos have W: "0 < ?W" by simp
    then have "sqrt ?W \<noteq> 0" by simp
    with False W show ?thesis
      by (simp add: roc2_rad_def Let_def r py_sqrt_def py_div_def inv_e12[OF i])
  qed
  with W0 show ?thesis by (simp add: inv_e2[OF i] inv_e12[OF i])
qed

theorem roc2_radii_witness:
  "Ellipsoid_init 6378137 (Some 6356752) None ''Oblate'' Map.empty =
     (Inr E_oblate, [''Oblate'' \<mapsto> E_oblate]) \<and>
   \<bar>pi / 6\<bar> \<le> pi / 2 \<and>
   (\<exists>v v12 W2. e2 E_oblate = Inr v \<and> e12 E_oblate = Inr v12 \<and>
      W2 = 1 - v * (sin (pi / 6))\<^sup>2 \<and> 0 \<le> W2 \<and>
      roc2_rad E_oblate (pi / 6) False =
        Inr (if W2 < EPS then (0, 0)
             else (E_a E_oblate / sqrt W2 * v12 / W2, E_a E_oblate / sqrt W2)))"
proof -
  have 2: "\<bar>pi / 6\<bar> \<le> pi / 2" by simp
  show ?thesis using init_oblate 2 roc2_radii[OF init_oblate 2] by blast
qed

section \<open>The polar stereographic projection\<close>

text \<open>
  Claim C3, as amended.  For a constructed ellipsoid, every \<open>rho\<close> and every
  \<open>tau = tan lat\<close>, the point scale factor of \<^verbatim>\<open>_scale\<close> is
  \<open>(rho / a) * sqrt (1 + tau\<^sup>2) * sqrt (e12 + e2 / (1 + tau\<^sup>2))\<close>: \<open>e2\<close> is divided by
  \<open>1 + tan\<^sup>2 lat\<close>, not by \<open>tan\<^sup>2 lat\<close>.
\<close>

theorem ups_scale_formula:
  assumes "Ellipsoid_init a0 bo fo n reg = (Inr E, reg')"
  shows "\<exists>v12 v2. e12 E = Inr v12 \<and> e2 E = Inr v2 \<and>
           ups_scale E rho tau =
             Inr (rho / E_a E * sqrt (1 + tau\<^sup>2) * sqrt (v12 + v2 / (1 + tau\<^sup>2)))"
proof -
  from Ellipsoid_init_Inr[OF assms] have i: "Ellipsoid_inv E" .
  show ?thesis
    by (simp add: inv_e12[OF i] inv_e2[OF i] inv_ups_scale[OF i])
qed

text \<open>
  The claim as stated, with \<open>e2 / tan\<^sup>2 lat\<close>, is false for the oblate sample model at
  \<open>rho = 1000000\<close> and \<open>tan lat = 1\<close>.
\<close>

theorem ups_scale_counterexample:
  "e12 E_oblate = Inr ((6356752 / 6378137)\<^sup>2) \<and>
   e2 E_oblate = Inr (1 - (6356752 / 6378137)\<^sup>2) \<and>
   ups_scale E_oblate 1000000 1 \<noteq>
     Inr (1000000 / E_a E_oblate * sqrt (1 + 1\<^sup>2) *
          sqrt ((6356752 / 6378137)\<^sup>2 + (1 - (6356752 / 6378137)\<^sup>2) / 1\<^sup>2))"
proof -
  from Ellipsoid_init_Inr[OF init_oblate] have i: "Ellipsoid_inv E_oblate" .
  have f1: "(1 - E_f E_oblate)\<^sup>2 = (6356752 / 6378137)\<^sup>2"
    by (simp add: power2_eq_square)
  have f2: "E_f E_oblate * (2 - E_f E_oblate) = 1 - (6356752 / 6378137)\<^sup>2"
    by (simp add: power2_eq_square)
  have a: "e12 E_oblate = Inr ((6356752 / 6378137)\<^sup>2)"
    by (simp only: inv_e12[OF i] f1)
  have b: "e2 E_oblate = Inr (1 - (6356752 / 6378137)\<^sup>2)"
    by (simp only: inv_e2[OF i] f2)
  have c: "ups_scale E_oblate 1000000 1 =
      Inr (1000000 / E_a E_oblate * sqrt (1 + 1\<^sup>2) *
           sqrt ((6356752 / 6378137)\<^sup>2 + (1 - (6356752 / 6378137)\<^sup>2) / (1 + 1\<^sup>2)))"
    by (simp only: inv_ups_scale[OF i] f1 f2)
  have "(6356752 / 6378137 :: real)\<^sup>2 \<noteq> 1"
    by (simp add: power2_eq_square)
  moreover have "1000000 / E_a E_oblate \<noteq> 0"
    by simp
  ultimately have "ups_scale E_oblate 1000000 1 \<noteq>
     Inr (1000000 / E_a E_oblate * sqrt (1 + 1\<^sup>2) *
          sqrt ((6356752 / 6378137)\<^sup>2 + (1 - (6356752 / 6378137)\<^sup>2) / 1\<^sup>2))"
    unfolding c using scale_formulas_differ by blast
  with a b show ?thesis by blast
qed

theorem ups_scale_formula_witness:
  "Ellipsoid_init 6378137 (Some 6356752) None ''Oblate'' Map.empty =
     (Inr E_oblate, [''Oblate'' \<mapsto> E_oblate]) \<and>
   (\<exists>v12 v2. e12 E_oblate = Inr v12 \<and> e2 E_oblate = Inr v2 \<and>
      ups_scale E_oblate 1000000 1 =
        Inr (1000000 / E_a E_oblate * sqrt (1 + 1\<^sup>2) * sqrt (v12 + v2 / (1 + 1\<^sup>2))))"
  using init_oblate ups_scale_formula[OF init_oblate, of 1000000 1] by blast

text \<open>
  Claim C2, as amended.  \<^verbatim>\<open>upsZoneBand5\<close> assigns the pole S when \<open>lat < -79.5\<close> and the
  pole N when \<open>lat > 83.5\<close>; with \<^verbatim>\<open>strict=True\<close> it raises a \<^verbatim>\<open>RangeError\<close>
  exactly when \<open>-79.5 \<le> lat \<le> 83.5\<close>, the two bounds included; with
  \<^verbatim>\<open>strict=False\<close> it raises no \<^verbatim>\<open>RangeError\<close>.
\<close>

theorem upsZoneBand5_poles:
  "(lat < - 795 / 10 \<longrightarrow>
      upsZoneBand5 hemi z lat lon strict = Inr (UPS_ZONE, Band lat lon, ''S'', lat, lon)) \<and>
   (lat > 835 / 10 \<longrightarrow>
      upsZoneBand5 hemi z lat lon strict = Inr (UPS_ZONE, Band lat lon, ''N'', lat, lon)) \<and>
   (upsZoneBand5 hemi z lat lon True = Inl RangeError \<longleftrightarrow> - 795 / 10 \<le> lat \<and> lat \<le> 835 / 10) \<and>
   upsZoneBand5 hemi z lat lon False \<noteq> Inl RangeError"
  by (auto simp add: upsZoneBand5_def UPS_LAT_MIN_def UPS_LAT_MAX_def)

text \<open>
  The claim as stated, with the pole S at \<open>lat = -79.5\<close>, is false: the strict
  classification of that latitude raises the \<^verbatim>\<open>RangeError\<close>.
\<close>

theorem upsZoneBand5_boundary_counterexample:
  "upsZoneBand5 (\<lambda>lat. if lat < 0 then ''S'' else ''N'') 31 (- 795 / 10) 0 True = Inl RangeError"
  by (simp add: upsZoneBand5_def UPS_LAT_MIN_def UPS_LAT_MAX_def)

theorem upsZoneBand5_poles_witness:
  "upsZoneBand5 (\<lambda>lat. if lat < 0 then ''S'' else ''N'') 31 (- 85) 10 True
     = Inr (UPS_ZONE, ''B'', ''S'', - 85, 10) \<and>
   upsZoneBand5 (\<lambda>lat. if lat < 0 then ''S'' else ''N'') 31 85 (- 10) True
     = Inr (UPS_ZONE, ''Y'', ''N'', 85, - 10) \<and>
   upsZoneBand5 (\<lambda>lat. if lat < 0 then ''S'' else ''N'') 31 45 0 True = Inl RangeError"
  using upsZoneBand5_poles[of "- 85" "\<lambda>lat. if lat < 0 then ''S'' else ''N''" 31 10 True]
    upsZoneBand5_poles[of 85 "\<lambda>lat. if lat < 0 then ''S'' else ''N''" 31 "- 10" True]
    upsZoneBand5_poles[of 45 "\<lambda>lat. if lat < 0 then ''S'' else ''N''" 31 0 True]
  by (simp add: Band_def Bands_def)

section \<open>The Newton inverse and the round trip\<close>






end
